theory Spec2Isabelle
  imports Main
begin

text \<open>
  The training bot of \<^verbatim>\<open>gaia-trainer.js\<close>: the class \<^verbatim>\<open>GaiaAiTrainingBot\<close> as functions on the
  state of the bot, with the transport and the event loop as explicit inputs, and the
  properties of its configuration, its prompt cursor, its message handler and its training
  loop.
\<close>

section \<open>JavaScript values used by the trainer\<close>

text \<open>
  Numbers of the configuration. The command line and the interactive prompt produce them with
  \<^verbatim>\<open>parseInt\<close>, which yields an integer or \<^verbatim>\<open>NaN\<close>.
\<close>

datatype jsnum = Num int | NaN

fun truthy_num :: "jsnum \<Rightarrow> bool" where
  "truthy_num (Num n) = (n \<noteq> 0)"
| "truthy_num NaN = False"

text \<open>\<^verbatim>\<open>a < b\<close> for a counter \<open>a\<close>; every comparison with \<^verbatim>\<open>NaN\<close> is false.\<close>

fun js_less :: "nat \<Rightarrow> jsnum \<Rightarrow> bool" where
  "js_less a (Num n) = (int a < n)"
| "js_less a NaN = False"

text \<open>\<^verbatim>\<open>m >= 1\<close> and \<^verbatim>\<open>m >= 0\<close> for a configured number.\<close>

fun js_ge :: "jsnum \<Rightarrow> int \<Rightarrow> bool" where
  "js_ge (Num n) k = (k \<le> n)"
| "js_ge NaN k = False"

text \<open>
  A decoded inbound payload: what \<^verbatim>\<open>JSON.parse\<close> returns, plus \<^verbatim>\<open>undefined\<close> for a property
  that is absent. Numbers are kept to the integers. An object is its list of members in
  textual order; when a key is repeated the last member wins.
\<close>

datatype jsval =
    JUndefined
  | JNull
  | JBool bool
  | JNum int
  | JStr string
  | JArr "jsval list"
  | JObj "(string \<times> jsval) list"

fun truthy :: "jsval \<Rightarrow> bool" where
  "truthy JUndefined = False"
| "truthy JNull = False"
| "truthy (JBool b) = b"
| "truthy (JNum n) = (n \<noteq> 0)"
| "truthy (JStr t) = (t \<noteq> [])"
| "truthy (JArr _) = True"
| "truthy (JObj _) = True"

text \<open>The operator \<^verbatim>\<open>a || b\<close>.\<close>

definition js_or :: "jsval \<Rightarrow> jsval \<Rightarrow> jsval" where
  "js_or a b = (if truthy a then a else b)"

datatype error =
    TypeError
  | WebSocketNotConnected
  | ConnectionTimeout
  | ConnectionError

text \<open>
  Reading one of the properties \<^verbatim>\<open>message\<close>, \<^verbatim>\<open>content\<close>, \<^verbatim>\<open>text\<close>. None of these names is
  inherited by objects, arrays, strings, numbers or booleans, so only an object's own members
  count; reading a property of \<^verbatim>\<open>null\<close> or \<^verbatim>\<open>undefined\<close> throws.
\<close>

definition member_of :: "(string \<times> jsval) list \<Rightarrow> string \<Rightarrow> jsval" where
  "member_of kvs k = (case map_of (rev kvs) k of None \<Rightarrow> JUndefined | Some v \<Rightarrow> v)"

fun get_field :: "jsval \<Rightarrow> string \<Rightarrow> error + jsval" where
  "get_field JUndefined k = Inl TypeError"
| "get_field JNull k = Inl TypeError"
| "get_field (JObj kvs) k = Inr (member_of kvs k)"
| "get_field (JBool b) k = Inr JUndefined"
| "get_field (JNum n) k = Inr JUndefined"
| "get_field (JStr t) k = Inr JUndefined"
| "get_field (JArr vs) k = Inr JUndefined"

section \<open>Configuration\<close>

text \<open>
  The argument of the constructor. \<open>None\<close> is a key the caller left out; a key that is present
  holds a value of the type the trainer expects.
\<close>

record options =
  opt_nodeUrl :: "string option"
  opt_trainingMode :: "string option"
  opt_messageInterval :: "jsnum option"
  opt_maxMessages :: "jsnum option"
  opt_customPrompts :: "string list option"
  opt_logFile :: "string option"

text \<open>\<^verbatim>\<open>this.config\<close>.\<close>

record config =
  nodeUrl :: string
  trainingMode :: string
  messageInterval :: jsnum
  maxMessages :: jsnum
  customPrompts :: "string list"
  logFile :: string

text \<open>\<^verbatim>\<open>config.k || d\<close> for a string, a number and an array (an array is always truthy).\<close>

definition or_str :: "string option \<Rightarrow> string \<Rightarrow> string" where
  "or_str v d = (case v of None \<Rightarrow> d | Some t \<Rightarrow> if t \<noteq> [] then t else d)"

definition or_num :: "jsnum option \<Rightarrow> jsnum \<Rightarrow> jsnum" where
  "or_num v d = (case v of None \<Rightarrow> d | Some n \<Rightarrow> if truthy_num n then n else d)"

definition or_list :: "string list option \<Rightarrow> string list \<Rightarrow> string list" where
  "or_list v d = (case v of None \<Rightarrow> d | Some l \<Rightarrow> l)"

text \<open>The spread \<^verbatim>\<open>...config\<close> at the end of the literal: every key that is present overrides.\<close>

definition spread :: "'a option \<Rightarrow> 'a \<Rightarrow> 'a" where
  "spread v base = (case v of None \<Rightarrow> base | Some x \<Rightarrow> x)"

text \<open>
  Lines 12 to 20. \<open>today\<close> is the date part of the current time, used for the default name of
  the log file.
\<close>

definition resolve_config :: "string \<Rightarrow> options \<Rightarrow> config" where
  "resolve_config today c =
     \<lparr> nodeUrl = spread (opt_nodeUrl c) (or_str (opt_nodeUrl c) ''ws://localhost:8080/chat''),
       trainingMode = spread (opt_trainingMode c) (or_str (opt_trainingMode c) ''general''),
       messageInterval = spread (opt_messageInterval c) (or_num (opt_messageInterval c) (Num 3000)),
       maxMessages = spread (opt_maxMessages c) (or_num (opt_maxMessages c) (Num 50)),
       customPrompts = spread (opt_customPrompts c) (or_list (opt_customPrompts c) []),
       logFile = spread (opt_logFile c) (or_str (opt_logFile c) (''gaia-training-'' @ today @ ''.json'')) \<rparr>"

section \<open>The bot\<close>

datatype ready_state = CONNECTING | OPEN | CLOSING | CLOSED

record stats =
  messageCount :: nat
  sessionCount :: nat
  responses :: nat
  errors :: nat

datatype entry_type = Prompt | Response

text \<open>
  One element of \<^verbatim>\<open>trainingData\<close>. The content of a prompt entry is \<open>None\<close> when the prompt was
  \<^verbatim>\<open>undefined\<close>. Time stamps are left out.
\<close>

record entry =
  etype :: entry_type
  content :: "string option"
  session :: nat

text \<open>
  The fields of the bot, without the start time of \<^verbatim>\<open>stats\<close>. \<open>ws\<close> is \<open>None\<close> for \<^verbatim>\<open>null\<close>
  and otherwise the ready state of the current socket. \<open>outbox\<close> is the transport's side of
  \<^verbatim>\<open>ws.send\<close>: the message text and the session number of every chat message handed to it,
  in order. \<open>errorListener\<close> is the part of the inherited \<^verbatim>\<open>EventEmitter\<close> that matters here:
  whether a listener of the bot's own \<^verbatim>\<open>error\<close> event is registered. The constructor starts
  with none, and nothing in this file registers one.
\<close>

record bot =
  config :: config
  ws :: "ready_state option"
  isRunning :: bool
  isPaused :: bool
  stats :: stats
  trainingData :: "entry list"
  currentPromptIndex :: nat
  outbox :: "(string option \<times> nat) list"
  errorListener :: bool

text \<open>The default argument \<^verbatim>\<open>{}\<close> of the constructor.\<close>

definition empty_options :: options where
  "empty_options =
     \<lparr> opt_nodeUrl = None, opt_trainingMode = None, opt_messageInterval = None,
       opt_maxMessages = None, opt_customPrompts = None, opt_logFile = None \<rparr>"

text \<open>Lines 10 to 37.\<close>

definition constructor :: "string \<Rightarrow> options \<Rightarrow> bot" where
  "constructor today c =
     \<lparr> config = resolve_config today c,
       ws = None,
       isRunning = False,
       isPaused = False,
       stats = \<lparr> messageCount = 0, sessionCount = 0, responses = 0, errors = 0 \<rparr>,
       trainingData = [],
       currentPromptIndex = 0,
       outbox = [],
       errorListener = False \<rparr>"


section \<open>Prompts\<close>

definition general_prompts :: "string list" where
  "general_prompts =
    [''Hello, how are you today?'',
     ''What's your favorite color and why?'',
     ''Tell me about the weather'',
     ''What do you think about artificial intelligence?'',
     ''Can you help me with a problem?'',
     ''What's the meaning of life?'',
     ''How do you stay motivated?'',
     ''What's your opinion on climate change?'',
     ''Tell me a joke'',
     ''What's your favorite book?'',
     ''How do you spend your free time?'',
     ''What makes you happy?'',
     ''Can you explain something complex in simple terms?'',
     ''What would you do if you could time travel?'',
     ''What's the most important lesson you've learned?'']"

definition qa_prompts :: "string list" where
  "qa_prompts =
    [''What is machine learning?'',
     ''How does photosynthesis work?'',
     ''What are the benefits of renewable energy?'',
     ''Explain quantum computing'',
     ''What causes earthquakes?'',
     ''How do vaccines work?'',
     ''What is blockchain technology?'',
     ''Explain the theory of relativity'',
     ''What is DNA?'',
     ''How do computers process information?'',
     ''What is artificial neural networks?'',
     ''How does the internet work?'',
     ''What is climate change?'',
     ''Explain the water cycle'',
     ''What are black holes?'']"

definition creative_prompts :: "string list" where
  "creative_prompts =
    [''Write a short story about a time traveler'',
     ''Create a poem about the ocean'',
     ''Describe a futuristic city'',
     ''Write a dialogue between two robots'',
     ''Create a character for a fantasy novel'',
     ''Write a song about friendship'',
     ''Describe a magical forest'',
     ''Create a superhero origin story'',
     ''Write a letter from the future'',
     ''Describe an alien civilization'',
     ''Imagine a world without gravity'',
     ''Create a story about a sentient AI'',
     ''Describe your dream house'',
     ''Write about a day in 2050'',
     ''Create a conversation between Earth and Mars'']"

definition technical_prompts :: "string list" where
  "technical_prompts =
    [''Explain RESTful API design principles'',
     ''What are the differences between SQL and NoSQL?'',
     ''How does encryption work?'',
     ''Explain microservices architecture'',
     ''What is containerization with Docker?'',
     ''How do neural networks learn?'',
     ''What is version control with Git?'',
     ''Explain cloud computing concepts'',
     ''What are design patterns in programming?'',
     ''How does blockchain consensus work?'',
     ''What is GraphQL vs REST?'',
     ''Explain serverless architecture'',
     ''What are the principles of clean code?'',
     ''How does machine learning training work?'',
     ''What is DevOps and CI/CD?'']"

definition educational_prompts :: "string list" where
  "educational_prompts =
    [''Teach me about the solar system'',
     ''Explain basic chemistry concepts'',
     ''What is the scientific method?'',
     ''How do plants grow?'',
     ''Explain the water cycle'',
     ''What is evolution?'',
     ''How do muscles work?'',
     ''Explain the food chain'',
     ''What causes seasons?'',
     ''How do we see colors?'',
     ''What is the structure of an atom?'',
     ''How does the brain work?'',
     ''What are the laws of physics?'',
     ''Explain cellular respiration'',
     ''What is genetic inheritance?'']"

definition default_custom_prompts :: "string list" where
  "default_custom_prompts =
    [''Tell me about your capabilities'',
     ''What can you help me with?'',
     ''How do you process information?'']"

text \<open>
  The object literal \<^verbatim>\<open>prompts\<close> of lines 49 to 140: its own members, in the order written.
\<close>

definition prompts_table :: "config \<Rightarrow> (string \<times> string list) list" where
  "prompts_table c =
    [(''general'', general_prompts),
     (''qa'', qa_prompts),
     (''creative'', creative_prompts),
     (''technical'', technical_prompts),
     (''educational'', educational_prompts),
     (''custom'', if length (customPrompts c) > 0 then customPrompts c else default_custom_prompts)]"

text \<open>
  The object literal inherits from \<^verbatim>\<open>Object.prototype\<close>, so \<^verbatim>\<open>prompts[k]\<close> finds a value for
  these names too: a built-in function, or the prototype object itself for \<^verbatim>\<open>__proto__\<close>.
\<close>

definition object_prototype_names :: "string list" where
  "object_prototype_names =
    [''constructor'', ''hasOwnProperty'', ''isPrototypeOf'', ''propertyIsEnumerable'',
     ''toLocaleString'', ''toString'', ''valueOf'', ''__proto__'',
     ''__defineGetter__'', ''__defineSetter__'', ''__lookupGetter__'', ''__lookupSetter__'']"

text \<open>
  What \<^verbatim>\<open>getTrainingPrompts\<close> can return: an array of prompts, or an inherited member of
  \<^verbatim>\<open>Object.prototype\<close>.
\<close>

datatype prompt_source = PromptArray "string list" | Inherited string

text \<open>
  Line 142, \<^verbatim>\<open>prompts[this.config.trainingMode] || prompts.general\<close>. An array is truthy even
  when it is empty, and so is every inherited member.
\<close>

definition getTrainingPrompts :: "bot \<Rightarrow> prompt_source" where
  "getTrainingPrompts s =
     (case map_of (prompts_table (config s)) (trainingMode (config s)) of
        Some ps \<Rightarrow> PromptArray ps
      | None \<Rightarrow>
          if trainingMode (config s) \<in> set object_prototype_names
          then Inherited (trainingMode (config s))
          else PromptArray general_prompts)"

text \<open>
  Line 268, \<^verbatim>\<open>prompts[i % prompts.length]\<close>. For an array the index is \<^verbatim>\<open>NaN\<close> when the array
  is empty, and an index that is not an element gives \<^verbatim>\<open>undefined\<close>. An inherited member has
  no indexed elements at all, whatever its \<^verbatim>\<open>length\<close> is.
\<close>

fun prompt_at :: "prompt_source \<Rightarrow> nat \<Rightarrow> string option" where
  "prompt_at (PromptArray ps) i =
     (if ps = [] then None
      else if i mod length ps < length ps then Some (ps ! (i mod length ps)) else None)"
| "prompt_at (Inherited k) i = None"

text \<open>Lines 268 and 269: read the prompt under the cursor, then advance the cursor.\<close>

definition next_prompt :: "prompt_source \<Rightarrow> bot \<Rightarrow> string option \<times> bot" where
  "next_prompt prompts s =
     (prompt_at prompts (currentPromptIndex s),
      s\<lparr>currentPromptIndex := currentPromptIndex s + 1\<rparr>)"

section \<open>Inbound messages\<close>

text \<open>
  Line 190: the text that is logged. Reading the first property throws when the payload is
  \<^verbatim>\<open>null\<close> or \<^verbatim>\<open>undefined\<close>; otherwise the chain of \<^verbatim>\<open>||\<close> takes the first truthy value and
  ends in the placeholder.
\<close>

definition placeholder :: string where
  "placeholder = ''Response received''"

definition extract_message :: "jsval \<Rightarrow> error + jsval" where
  "extract_message response =
     (case get_field response ''message'' of
        Inl e \<Rightarrow> Inl e
      | Inr m \<Rightarrow>
          (case get_field response ''content'' of
             Inl e \<Rightarrow> Inl e
           | Inr c \<Rightarrow>
               (case get_field response ''text'' of
                  Inl e \<Rightarrow> Inl e
                | Inr t \<Rightarrow> Inr (js_or m (js_or c (js_or t (JStr placeholder)))))))"

text \<open>
  Lines 188 to 203. The counter is incremented first. Line 193 calls \<^verbatim>\<open>message.substring\<close>,
  which only a string has, so any other truthy value throws there, after the increment and
  before the entry is pushed. The result is the error thrown, if any, and the bot afterwards.
\<close>

definition handleResponse :: "jsval \<Rightarrow> bot \<Rightarrow> error option \<times> bot" where
  "handleResponse response s =
     (let s1 = s\<lparr>stats := (stats s)\<lparr>responses := responses (stats s) + 1\<rparr>\<rparr> in
      case extract_message response of
        Inl e \<Rightarrow> (Some e, s1)
      | Inr (JStr message) \<Rightarrow>
          (None,
           s1\<lparr>trainingData := trainingData s1 @
                 [\<lparr>etype = Response, content = Some message, session = sessionCount (stats s1)\<rparr>]\<rparr>)
      | Inr _ \<Rightarrow> (Some TypeError, s1))"

text \<open>
  The bot after one response with text \<open>x\<close> has been counted and recorded: what lines 189
  and 195 to 200 do when nothing throws in between.
\<close>

abbreviation logged :: "string \<Rightarrow> bot \<Rightarrow> bot" where
  "logged x s \<equiv>
     s\<lparr>stats := (stats s)\<lparr>responses := responses (stats s) + 1\<rparr>,
       trainingData := trainingData s @
         [\<lparr>etype = Response, content = Some x, session = sessionCount (stats s)\<rparr>]\<rparr>"

text \<open>
  Lines 157 to 165, the handler of the socket's \<^verbatim>\<open>message\<close> event. \<open>raw\<close> is \<^verbatim>\<open>data.toString()\<close>
  and \<open>decoded\<close> is the result of \<^verbatim>\<open>JSON.parse\<close> on it, \<open>None\<close> when it throws. The
  \<^verbatim>\<open>try\<close> block covers the call of \<^verbatim>\<open>handleResponse\<close> as well, so an exception thrown there
  also ends in the \<^verbatim>\<open>catch\<close> block.
\<close>

definition on_message :: "string \<Rightarrow> jsval option \<Rightarrow> bot \<Rightarrow> error option \<times> bot" where
  "on_message raw decoded s =
     (case decoded of
        None \<Rightarrow> handleResponse (JObj [(''message'', JStr raw)]) s
      | Some response \<Rightarrow>
          (case handleResponse response s of
             (None, s') \<Rightarrow> (None, s')
           | (Some e, s') \<Rightarrow> handleResponse (JObj [(''message'', JStr raw)]) s'))"

section \<open>Sending\<close>

text \<open>
  Lines 205 to 231. The guard throws before anything is changed. After it the message is
  handed to the socket, the counter is incremented and the entry is pushed.
\<close>

definition sendMessage :: "string option \<Rightarrow> bot \<Rightarrow> error option \<times> bot" where
  "sendMessage message s =
     (if ws s \<noteq> Some OPEN then (Some WebSocketNotConnected, s)
      else
        let s1 = s\<lparr>outbox := outbox s @ [(message, sessionCount (stats s))]\<rparr>;
            s2 = s1\<lparr>stats := (stats s1)\<lparr>messageCount := messageCount (stats s1) + 1\<rparr>\<rparr>
        in (None,
            s2\<lparr>trainingData := trainingData s2 @
                  [\<lparr>etype = Prompt, content = message, session = sessionCount (stats s2)\<rparr>]\<rparr>))"

section \<open>Connecting, stopping, pausing\<close>

text \<open>
  A handler of a socket event either returns, or it throws while nothing up the stack
  catches: the error is then uncaught and ends the process, with the bot as it is.
\<close>

datatype handled = Handled bot | Uncaught bot

fun handled_bot :: "handled \<Rightarrow> bot" where
  "handled_bot (Handled s) = s"
| "handled_bot (Uncaught s) = s"

text \<open>
  Lines 172 to 175, the handler of a socket's \<^verbatim>\<open>error\<close> event up to its \<^verbatim>\<open>emit\<close>: the error is
  counted, then it is emitted as the bot's own \<^verbatim>\<open>error\<close> event. To emit \<^verbatim>\<open>error\<close> with no
  listener registered throws the error.
\<close>

definition on_error_event :: "bot \<Rightarrow> handled" where
  "on_error_event s =
     (let s1 = s\<lparr>stats := (stats s)\<lparr>errors := errors (stats s) + 1\<rparr>\<rparr>
      in if errorListener s then Handled s1 else Uncaught s1)"

text \<open>
  What the transport does with one call of \<^verbatim>\<open>connectToNode\<close>: the socket opens, it reports
  an error, or nothing happens within the ten seconds of the timer.
\<close>

datatype conn_outcome = ConnOpen | ConnError | ConnTimeout

text \<open>
  The promise of \<^verbatim>\<open>connectToNode\<close> is resolved, or it is rejected with an error, or the
  handler of the \<^verbatim>\<open>error\<close> event throws before line 176 can reject.
\<close>

datatype connected = Resolved bot | Rejected error bot | Thrown bot

fun connected_bot :: "connected \<Rightarrow> bot" where
  "connected_bot (Resolved s) = s"
| "connected_bot (Rejected e s) = s"
| "connected_bot (Thrown s) = s"

text \<open>
  Lines 145 to 186. A new socket replaces the old one at once. A socket that fails to connect
  is closing when it raises its \<^verbatim>\<open>error\<close> event and closed once the handler has returned;
  the handler counts the error before it rejects. The timer rejects without counting, and
  the socket is still connecting then.
\<close>

fun connectToNode :: "conn_outcome \<Rightarrow> bot \<Rightarrow> connected" where
  "connectToNode ConnOpen s = Resolved (s\<lparr>ws := Some OPEN\<rparr>)"
| "connectToNode ConnError s =
     (case on_error_event (s\<lparr>ws := Some CLOSING\<rparr>) of
        Handled s1 \<Rightarrow> Rejected ConnectionError (s1\<lparr>ws := Some CLOSED\<rparr>)
      | Uncaught s1 \<Rightarrow> Thrown s1)"
| "connectToNode ConnTimeout s = Rejected ConnectionTimeout (s\<lparr>ws := Some CONNECTING\<rparr>)"

text \<open>
  Lines 326 to 337. \<^verbatim>\<open>ws.close()\<close> on a socket that is still connecting aborts the handshake,
  which raises the socket's \<^verbatim>\<open>error\<close> event before the socket closes. The events of the
  closing socket arrive while \<^verbatim>\<open>stopTraining\<close> waits for the log to be saved, and the socket
  is closed when that wait is over. Saving the log and printing the summary change nothing
  in the bot.
\<close>

definition stopTraining :: "bot \<Rightarrow> handled" where
  "stopTraining s =
     (let s1 = s\<lparr>isRunning := False, isPaused := False\<rparr> in
      case ws s1 of
        None \<Rightarrow> Handled s1
      | Some CONNECTING \<Rightarrow>
          (case on_error_event (s1\<lparr>ws := Some CLOSING\<rparr>) of
             Handled s2 \<Rightarrow> Handled (s2\<lparr>ws := Some CLOSED\<rparr>)
           | Uncaught s2 \<Rightarrow> Uncaught s2)
      | Some _ \<Rightarrow> Handled (s1\<lparr>ws := Some CLOSED\<rparr>))"

text \<open>Lines 339 to 342.\<close>

definition pauseTraining :: "bot \<Rightarrow> bot" where
  "pauseTraining s = s\<lparr>isPaused := \<not> isPaused s\<rparr>"

section \<open>What happens while the loop waits\<close>

text \<open>
  The loop gives up control only in \<^verbatim>\<open>sleep\<close> and in \<^verbatim>\<open>connectToNode\<close>. While it sleeps the
  event loop may run handlers: a message arrives on the socket, the socket closes (the
  handler of lines 167 to 170 only reports it; the socket is closed from then on), the socket
  reports an error (it is closing from then on; the handler is that of lines 172 to 177),
  somebody toggles the pause, or the process is interrupted (the handler of \<^verbatim>\<open>SIGINT\<close> on
  lines 40 to 45 calls \<^verbatim>\<open>stopTraining\<close> and exits the process when that is over; a loop
  that wakes up before the exit finds \<^verbatim>\<open>isRunning\<close> false, leaves, and stops the stopped
  bot once more, which changes nothing).
\<close>

datatype event =
    Inbound string "jsval option"
  | SocketClosed
  | SocketError
  | TogglePause
  | Interrupt

fun deliver :: "event \<Rightarrow> bot \<Rightarrow> handled" where
  "deliver (Inbound raw decoded) s = Handled (snd (on_message raw decoded s))"
| "deliver SocketClosed s = Handled (s\<lparr>ws := map_option (\<lambda>_. CLOSED) (ws s)\<rparr>)"
| "deliver SocketError s = on_error_event (s\<lparr>ws := map_option (\<lambda>_. CLOSING) (ws s)\<rparr>)"
| "deliver TogglePause s = Handled (pauseTraining s)"
| "deliver Interrupt s = stopTraining s"

text \<open>The events of one sleep in turn; an uncaught error ends the process and the rest is lost.\<close>

fun deliver_all :: "event list \<Rightarrow> bot \<Rightarrow> handled" where
  "deliver_all [] s = Handled s"
| "deliver_all (e # evs) s =
     (case deliver e s of
        Handled s' \<Rightarrow> deliver_all evs s'
      | Uncaught s' \<Rightarrow> Uncaught s')"

section \<open>The training loop\<close>

text \<open>
  A run of the loop is driven by two scripts: \<open>sleeps\<close> holds, for each sleep in turn, the
  events delivered during it, and \<open>conns\<close> holds the outcome of each reconnect in turn. The
  loop uses one element of a script at every wait. When a script is used up the observation
  ends there: the result is \<open>Pending\<close> with the bot as it is at that wait. \<open>Completed\<close> is
  the loop left through its condition or through \<^verbatim>\<open>break\<close>. \<open>Died\<close> is the process ended by
  an uncaught error, with the bot as it is then.
\<close>

datatype 'a run = Completed 'a | Pending 'a | Died 'a

fun run_state :: "'a run \<Rightarrow> 'a" where
  "run_state (Completed x) = x"
| "run_state (Pending x) = x"
| "run_state (Died x) = x"

text \<open>
  Lines 260 to 295, with \<open>n\<close> the local \<^verbatim>\<open>currentMessageCount\<close>. The only exception the
  \<^verbatim>\<open>try\<close> block can raise is the one of \<^verbatim>\<open>sendMessage\<close>, whose text contains
  \<^verbatim>\<open>WebSocket\<close>, so the \<^verbatim>\<open>catch\<close> block always goes on to reconnect.
\<close>

fun loop :: "prompt_source \<Rightarrow> nat \<Rightarrow> event list list \<Rightarrow> conn_outcome list \<Rightarrow> bot \<Rightarrow> (nat \<times> bot) run" where
  "loop prompts n sleeps conns s =
     (if isRunning s \<and> js_less n (maxMessages (config s)) then
        if isPaused s then
          (case sleeps of
             [] \<Rightarrow> Pending (n, s)
           | evs # sleeps' \<Rightarrow>
               (case deliver_all evs s of
                  Handled s' \<Rightarrow> loop prompts n sleeps' conns s'
                | Uncaught s' \<Rightarrow> Died (n, s')))
        else
          (case sendMessage (fst (next_prompt prompts s)) (snd (next_prompt prompts s)) of
             (None, s2) \<Rightarrow>
               (case sleeps of
                  [] \<Rightarrow> Pending (n + 1, s2)
                | evs # sleeps' \<Rightarrow>
                    (case deliver_all evs s2 of
                       Handled s' \<Rightarrow> loop prompts (n + 1) sleeps' conns s'
                     | Uncaught s' \<Rightarrow> Died (n + 1, s')))
           | (Some e, s2) \<Rightarrow>
               (case conns of
                  [] \<Rightarrow> Pending (n, s2\<lparr>stats := (stats s2)\<lparr>errors := errors (stats s2) + 1\<rparr>\<rparr>)
                | c # conns' \<Rightarrow>
                    (case connectToNode c (s2\<lparr>stats := (stats s2)\<lparr>errors := errors (stats s2) + 1\<rparr>\<rparr>) of
                       Resolved s4 \<Rightarrow> loop prompts n sleeps conns' s4
                     | Rejected e' s4 \<Rightarrow> Completed (n, s4)
                     | Thrown s4 \<Rightarrow> Died (n, s4))))
      else Completed (n, s))"

text \<open>Lines 256 to 302: the loop, then \<^verbatim>\<open>stopTraining\<close> once the loop is left.\<close>

definition trainingLoop :: "event list list \<Rightarrow> conn_outcome list \<Rightarrow> bot \<Rightarrow> bot run" where
  "trainingLoop sleeps conns s =
     (case loop (getTrainingPrompts s) 0 sleeps conns s of
        Completed (n, s') \<Rightarrow>
          (case stopTraining s' of
             Handled s'' \<Rightarrow> Completed s''
           | Uncaught s'' \<Rightarrow> Died s'')
      | Pending (n, s') \<Rightarrow> Pending s'
      | Died (n, s') \<Rightarrow> Died s')"

text \<open>
  Lines 233 to 254. \<open>first\<close> is the outcome of the initial connect. A rejection there is thrown
  on to the caller: the result is the error and the bot, which never started running.
\<close>

definition startTraining :: "conn_outcome \<Rightarrow> event list list \<Rightarrow> conn_outcome list \<Rightarrow> bot \<Rightarrow> (error \<times> bot) + bot run" where
  "startTraining first sleeps conns s =
     (case connectToNode first s of
        Rejected e s1 \<Rightarrow> Inl (e, s1)
      | Thrown s1 \<Rightarrow> Inr (Died s1)
      | Resolved s1 \<Rightarrow>
          Inr (trainingLoop sleeps conns
                 (s1\<lparr>isRunning := True,
                     stats := (stats s1)\<lparr>sessionCount := sessionCount (stats s1) + 1\<rparr>\<rparr>)))"

section \<open>Notions used to state the properties of a run\<close>




text \<open>The entries of kind prompt in the ledger, in order.\<close>

definition prompt_entries :: "bot \<Rightarrow> entry list" where
  "prompt_entries s = filter (\<lambda>e. etype e = Prompt) (trainingData s)"


text \<open>
  The part of the bot that the arrival of a message never touches: everything but the
  response counter and the response entries of the ledger.
\<close>

definition core :: "bot \<Rightarrow> config \<times> ready_state option \<times> bool \<times> bool \<times> nat \<times> nat \<times> nat \<times> nat \<times> (string option \<times> nat) list \<times> entry list \<times> bool" where
  "core s = (config s, ws s, isRunning s, isPaused s, messageCount (stats s),
             sessionCount (stats s), errors (stats s), currentPromptIndex s, outbox s,
             prompt_entries s, errorListener s)"

text \<open>The bot when \<open>startTraining\<close> is over, or when the observation of it ends.\<close>

fun final_bot :: "(error \<times> bot) + bot run \<Rightarrow> bot" where
  "final_bot (Inl (e, s)) = s"
| "final_bot (Inr r) = run_state r"


declare loop.simps [simp del]

section \<open>Concrete runs\<close>

text \<open>The definitions that a run on concrete scripts unfolds.\<close>

lemmas run_defs = startTraining_def trainingLoop_def loop.simps constructor_def
      resolve_config_def empty_options_def spread_def or_num_def or_str_def or_list_def
      getTrainingPrompts_def prompts_table_def next_prompt_def sendMessage_def
      stopTraining_def on_error_event_def pauseTraining_def general_prompts_def Let_def

section \<open>The prompt cursor\<close>

text \<open>
  C8. For a non-empty prompt array of length \<open>L\<close> and any cursor \<open>i\<close>, taking the next prompt
  gives the element at index \<open>i mod L\<close>, which is an element of the array (the read never
  falls outside it), and moves the cursor by exactly one while nothing else in the bot changes.
  The prompt under cursor \<open>i + L\<close> is the prompt under cursor \<open>i\<close>: the sequence repeats.
\<close>

theorem next_prompt_cyclic:
  "ps \<noteq> [] \<Longrightarrow>
     next_prompt (PromptArray ps) s =
       (Some (ps ! (currentPromptIndex s mod length ps)),
        s\<lparr>currentPromptIndex := currentPromptIndex s + 1\<rparr>)
     \<and> currentPromptIndex s mod length ps < length ps
     \<and> fst (next_prompt (PromptArray ps) (s\<lparr>currentPromptIndex := currentPromptIndex s + length ps\<rparr>))
         = fst (next_prompt (PromptArray ps) s)"
  by (simp add: next_prompt_def)

theorem next_prompt_cyclic_witness:
  "next_prompt (PromptArray default_custom_prompts)
       ((constructor ''2026-11-02'' empty_options)\<lparr>currentPromptIndex := 4\<rparr>) =
     (Some ''What can you help me with?'',
      (constructor ''2026-11-02'' empty_options)\<lparr>currentPromptIndex := 5\<rparr>)"
  using next_prompt_cyclic
    [of default_custom_prompts "(constructor ''2026-11-02'' empty_options)\<lparr>currentPromptIndex := 4\<rparr>"]
  by (simp add: default_custom_prompts_def)

section \<open>Sending on a channel that is not open\<close>

text \<open>
  C9. When the socket is absent or not open, \<open>sendMessage\<close> throws the not-connected error
  and the bot it leaves behind is the bot it was given: counters, cursor, ledger and outbox
  are all untouched.
\<close>

theorem sendMessage_not_open:
  "ws s \<noteq> Some OPEN \<Longrightarrow> sendMessage message s = (Some WebSocketNotConnected, s)"
  by (simp add: sendMessage_def)

theorem sendMessage_not_open_witness:
  "sendMessage (Some ''Tell me a joke'') (constructor ''2026-11-02'' empty_options)
     = (Some WebSocketNotConnected, constructor ''2026-11-02'' empty_options)"
  using sendMessage_not_open [of "constructor ''2026-11-02'' empty_options" "Some ''Tell me a joke''"]
  by (simp add: constructor_def)

section \<open>Training modes that are not categories\<close>

text \<open>
  A mode that is neither one of the six categories nor a name inherited from
  \<^verbatim>\<open>Object.prototype\<close> falls back to the general prompts.
\<close>

lemma getTrainingPrompts_other_name:
  "trainingMode (config s) \<notin> set [''general'', ''qa'', ''creative'', ''technical'', ''educational'', ''custom''] \<Longrightarrow>
   trainingMode (config s) \<notin> set object_prototype_names \<Longrightarrow>
   getTrainingPrompts s = PromptArray general_prompts"
  by (simp add: getTrainingPrompts_def prompts_table_def)

text \<open>
  C10. The claim is that every mode outside the six categories uses the general prompts. With
  the mode \<^verbatim>\<open>constructor\<close> the lookup finds the inherited member instead of falling back, so
  the prompts are not the general set, and every prompt read from them is \<^verbatim>\<open>undefined\<close>: a
  session in this mode sends and records messages without text.
\<close>

theorem getTrainingPrompts_inherited_name:
  "getTrainingPrompts (constructor today (empty_options\<lparr>opt_trainingMode := Some ''constructor''\<rparr>))
     = Inherited ''constructor''
   \<and> getTrainingPrompts (constructor today (empty_options\<lparr>opt_trainingMode := Some ''constructor''\<rparr>))
     \<noteq> PromptArray general_prompts
   \<and> prompt_at (getTrainingPrompts (constructor today (empty_options\<lparr>opt_trainingMode := Some ''constructor''\<rparr>))) i
     = None
   \<and> trainingData (final_bot (startTraining ConnOpen [[], []] []
        (constructor today
           (empty_options\<lparr>opt_trainingMode := Some ''constructor'', opt_maxMessages := Some (Num 2)\<rparr>))))
     = [\<lparr>etype = Prompt, content = None, session = 1\<rparr>,
        \<lparr>etype = Prompt, content = None, session = 1\<rparr>]"
  by (simp add: run_defs object_prototype_names_def)

section \<open>Handling an inbound message\<close>

text \<open>
  What one call of \<open>handleResponse\<close> leaves behind: the counted and recorded response when it
  returns, the counter alone when it throws.
\<close>

lemma handleResponse_shape:
  "(fst (handleResponse r s) = None \<longrightarrow> (\<exists>x. snd (handleResponse r s) = logged x s))
   \<and> (fst (handleResponse r s) \<noteq> None \<longrightarrow>
        snd (handleResponse r s) = s\<lparr>stats := (stats s)\<lparr>responses := responses (stats s) + 1\<rparr>\<rparr>)"
  by (auto simp: handleResponse_def Let_def split: sum.splits jsval.splits)

text \<open>The call in the \<^verbatim>\<open>catch\<close> block never throws: its payload has a string under \<^verbatim>\<open>message\<close>.\<close>

lemma handleResponse_raw:
  "handleResponse (JObj [(''message'', JStr raw)]) s =
     (None, logged (if raw = [] then placeholder else raw) s)"
  by (simp add: handleResponse_def extract_message_def member_of_def js_or_def)

lemma on_message_no_throw: "fst (on_message raw d s) = None"
  by (auto simp: on_message_def handleResponse_raw split: option.splits prod.splits)

text \<open>For an object the logged value is the first truthy one of the three members.\<close>

lemma handleResponse_obj:
  "handleResponse (JObj kvs) s =
     (case js_or (member_of kvs ''message'') (js_or (member_of kvs ''content'')
             (js_or (member_of kvs ''text'') (JStr placeholder))) of
        JStr x \<Rightarrow> (None, logged x s)
      | _ \<Rightarrow> (Some TypeError, s\<lparr>stats := (stats s)\<lparr>responses := responses (stats s) + 1\<rparr>\<rparr>))"
  by (simp add: handleResponse_def extract_message_def Let_def split: jsval.splits)

text \<open>
  C7, as amended. For a decoded object the logged text is the value of the first member, in
  the order \<^verbatim>\<open>message\<close>, \<^verbatim>\<open>content\<close>, \<^verbatim>\<open>text\<close>, that holds a truthy value, when that value
  is a string (then a non-empty one): a member that is absent or holds a falsy value such as
  the empty string is passed over. When
  none of the three is truthy the text is the placeholder. A payload that fails to decode is
  handled as the object whose \<^verbatim>\<open>message\<close> member is the raw text, so a non-empty raw text is
  logged as it is.
\<close>

theorem on_message_first_truthy_text:
  "(member_of kvs ''message'' = JStr x \<and> x \<noteq> [] \<longrightarrow>
      on_message raw (Some (JObj kvs)) s = (None, logged x s))
   \<and> (\<not> truthy (member_of kvs ''message'') \<and> member_of kvs ''content'' = JStr x \<and> x \<noteq> [] \<longrightarrow>
      on_message raw (Some (JObj kvs)) s = (None, logged x s))
   \<and> (\<not> truthy (member_of kvs ''message'') \<and> \<not> truthy (member_of kvs ''content'')
        \<and> member_of kvs ''text'' = JStr x \<and> x \<noteq> [] \<longrightarrow>
      on_message raw (Some (JObj kvs)) s = (None, logged x s))
   \<and> (\<not> truthy (member_of kvs ''message'') \<and> \<not> truthy (member_of kvs ''content'')
        \<and> \<not> truthy (member_of kvs ''text'') \<longrightarrow>
      on_message raw (Some (JObj kvs)) s = (None, logged placeholder s))
   \<and> on_message raw None s = handleResponse (JObj [(''message'', JStr raw)]) s
   \<and> (raw \<noteq> [] \<longrightarrow> on_message raw None s = (None, logged raw s))"
proof -
  have obj: "on_message raw (Some (JObj kvs)) s = (None, logged y s)"
    if "js_or (member_of kvs ''message'') (js_or (member_of kvs ''content'')
          (js_or (member_of kvs ''text'') (JStr placeholder))) = JStr y" for y
    using that by (simp add: on_message_def handleResponse_obj)
  have 1: "member_of kvs ''message'' = JStr x \<and> x \<noteq> [] \<longrightarrow>
      on_message raw (Some (JObj kvs)) s = (None, logged x s)"
    using obj [of x] by (simp add: js_or_def)
  have 2: "\<not> truthy (member_of kvs ''message'') \<and> member_of kvs ''content'' = JStr x \<and> x \<noteq> [] \<longrightarrow>
      on_message raw (Some (JObj kvs)) s = (None, logged x s)"
    using obj [of x] by (simp add: js_or_def)
  have 3: "\<not> truthy (member_of kvs ''message'') \<and> \<not> truthy (member_of kvs ''content'')
        \<and> member_of kvs ''text'' = JStr x \<and> x \<noteq> [] \<longrightarrow>
      on_message raw (Some (JObj kvs)) s = (None, logged x s)"
    using obj [of x] by (simp add: js_or_def)
  have 4: "\<not> truthy (member_of kvs ''message'') \<and> \<not> truthy (member_of kvs ''content'')
        \<and> \<not> truthy (member_of kvs ''text'') \<longrightarrow>
      on_message raw (Some (JObj kvs)) s = (None, logged placeholder s)"
    using obj [of placeholder] by (simp add: js_or_def placeholder_def)
  have 5: "on_message raw None s = handleResponse (JObj [(''message'', JStr raw)]) s"
    by (simp add: on_message_def)
  have 6: "raw \<noteq> [] \<longrightarrow> on_message raw None s = (None, logged raw s)"
    by (simp add: on_message_def handleResponse_raw)
  from 1 2 3 4 5 6 show ?thesis by blast
qed

theorem on_message_first_truthy_text_witness:
  "on_message ''{\"message\":\"a\",\"text\":\"t\"}''
      (Some (JObj [(''message'', JStr ''a''), (''text'', JStr ''t'')]))
      (constructor ''2026-11-02'' empty_options)
     = (None, logged ''a'' (constructor ''2026-11-02'' empty_options))
   \<and> on_message ''{\"content\":\"hi\",\"text\":\"other\"}''
      (Some (JObj [(''content'', JStr ''hi''), (''text'', JStr ''other'')]))
      (constructor ''2026-11-02'' empty_options)
     = (None, logged ''hi'' (constructor ''2026-11-02'' empty_options))
   \<and> on_message ''{\"message\":null,\"text\":\"t\"}''
      (Some (JObj [(''message'', JNull), (''text'', JStr ''t'')]))
      (constructor ''2026-11-02'' empty_options)
     = (None, logged ''t'' (constructor ''2026-11-02'' empty_options))
   \<and> on_message ''{}'' (Some (JObj [])) (constructor ''2026-11-02'' empty_options)
     = (None, logged ''Response received'' (constructor ''2026-11-02'' empty_options))
   \<and> on_message ''pong'' None (constructor ''2026-11-02'' empty_options)
     = (None, logged ''pong'' (constructor ''2026-11-02'' empty_options))"
proof -
  let ?s = "constructor ''2026-11-02'' empty_options"
  have a: "member_of [(''message'', JStr ''a''), (''text'', JStr ''t'')] ''message'' = JStr ''a'' \<and> ''a'' \<noteq> []"
    by (simp add: member_of_def)
  have b: "\<not> truthy (member_of [(''content'', JStr ''hi''), (''text'', JStr ''other'')] ''message'')
      \<and> member_of [(''content'', JStr ''hi''), (''text'', JStr ''other'')] ''content'' = JStr ''hi''
      \<and> ''hi'' \<noteq> []"
    by (simp add: member_of_def)
  have c: "\<not> truthy (member_of [(''message'', JNull), (''text'', JStr ''t'')] ''message'')
      \<and> \<not> truthy (member_of [(''message'', JNull), (''text'', JStr ''t'')] ''content'')
      \<and> member_of [(''message'', JNull), (''text'', JStr ''t'')] ''text'' = JStr ''t'' \<and> ''t'' \<noteq> []"
    by (simp add: member_of_def)
  have d: "\<not> truthy (member_of [] ''message'') \<and> \<not> truthy (member_of [] ''content'')
      \<and> \<not> truthy (member_of [] ''text'')"
    by (simp add: member_of_def)
  have e: "''pong'' \<noteq> []"
    by simp
  from a on_message_first_truthy_text
     [of "[(''message'', JStr ''a''), (''text'', JStr ''t'')]" "''a''"
         "''{\"message\":\"a\",\"text\":\"t\"}''" ?s]
  have 1: "on_message ''{\"message\":\"a\",\"text\":\"t\"}''
      (Some (JObj [(''message'', JStr ''a''), (''text'', JStr ''t'')])) ?s = (None, logged ''a'' ?s)"
    by blast
  from b on_message_first_truthy_text
     [of "[(''content'', JStr ''hi''), (''text'', JStr ''other'')]" "''hi''"
         "''{\"content\":\"hi\",\"text\":\"other\"}''" ?s]
  have 2: "on_message ''{\"content\":\"hi\",\"text\":\"other\"}''
      (Some (JObj [(''content'', JStr ''hi''), (''text'', JStr ''other'')])) ?s
     = (None, logged ''hi'' ?s)"
    by blast
  from c on_message_first_truthy_text
     [of "[(''message'', JNull), (''text'', JStr ''t'')]" "''t''"
         "''{\"message\":null,\"text\":\"t\"}''" ?s]
  have 3: "on_message ''{\"message\":null,\"text\":\"t\"}''
      (Some (JObj [(''message'', JNull), (''text'', JStr ''t'')])) ?s = (None, logged ''t'' ?s)"
    by blast
  from d on_message_first_truthy_text [of "[]" "''''" "''{}''" ?s]
  have 4: "on_message ''{}'' (Some (JObj [])) ?s = (None, logged ''Response received'' ?s)"
    unfolding placeholder_def by blast
  from e on_message_first_truthy_text [of "[]" "''''" "''pong''" ?s]
  have 5: "on_message ''pong'' None ?s = (None, logged ''pong'' ?s)"
    by blast
  from 1 2 3 4 5 show ?thesis
    by (intro conjI)
qed

text \<open>
  C7 as stated fails: in the payload below the first member present is \<^verbatim>\<open>message\<close>, holding
  the empty text, yet the text logged is that of \<^verbatim>\<open>content\<close>; and a payload whose only
  member is an empty \<^verbatim>\<open>message\<close> is logged as the placeholder although a member is present.
\<close>

theorem on_message_empty_message_field:
  "member_of [(''message'', JStr ''''), (''content'', JStr ''hello'')] ''message'' = JStr ''''
   \<and> on_message ''{\"message\":\"\",\"content\":\"hello\"}''
        (Some (JObj [(''message'', JStr ''''), (''content'', JStr ''hello'')]))
        (constructor ''2026-11-02'' empty_options)
      = (None, logged ''hello'' (constructor ''2026-11-02'' empty_options))
   \<and> on_message ''{\"message\":\"\"}'' (Some (JObj [(''message'', JStr '''')]))
        (constructor ''2026-11-02'' empty_options)
      = (None, logged ''Response received'' (constructor ''2026-11-02'' empty_options))"
  by (simp add: on_message_def handleResponse_obj js_or_def member_of_def placeholder_def)

text \<open>
  C2, as amended. A call of \<open>handleResponse\<close> that returns has incremented the response
  counter by one and appended one response entry. The increment comes first: when the call
  throws, the counter is already incremented and nothing has been appended. An inbound
  message that fails to decode, or whose decoded payload is handled without an exception, is
  counted exactly once and recorded exactly once by the handler of the socket.
\<close>

theorem handleResponse_counts_then_appends:
  "(fst (handleResponse r s) = None \<longrightarrow> (\<exists>x. snd (handleResponse r s) = logged x s))
   \<and> (fst (handleResponse r s) \<noteq> None \<longrightarrow>
        snd (handleResponse r s) = s\<lparr>stats := (stats s)\<lparr>responses := responses (stats s) + 1\<rparr>\<rparr>)
   \<and> (d = None \<or> (\<exists>r'. d = Some r' \<and> fst (handleResponse r' s) = None) \<longrightarrow>
        (\<exists>x. on_message raw d s = (None, logged x s)))"
proof -
  have a: "\<exists>x. on_message raw None s = (None, logged x s)"
    by (rule exI [of _ "if raw = [] then placeholder else raw"])
      (simp add: on_message_def handleResponse_raw)
  have b: "\<exists>x. on_message raw (Some r') s = (None, logged x s)"
    if "fst (handleResponse r' s) = None" for r'
  proof -
    from that handleResponse_shape [of r' s]
    obtain x where "snd (handleResponse r' s) = logged x s" by blast
    with that have "handleResponse r' s = (None, logged x s)"
      by (metis prod.collapse)
    then show ?thesis by (auto simp: on_message_def)
  qed
  from a b handleResponse_shape [of r s] show ?thesis by blast
qed

theorem handleResponse_counts_then_appends_witness:
  "(\<exists>x. snd (handleResponse (JObj [(''text'', JStr ''ok'')]) (constructor ''2026-11-02'' empty_options))
          = logged x (constructor ''2026-11-02'' empty_options))
   \<and> snd (handleResponse JNull (constructor ''2026-11-02'' empty_options))
       = (constructor ''2026-11-02'' empty_options)
           \<lparr>stats := (stats (constructor ''2026-11-02'' empty_options))
              \<lparr>responses := responses (stats (constructor ''2026-11-02'' empty_options)) + 1\<rparr>\<rparr>
   \<and> (\<exists>x. on_message ''{\"text\":\"ok\"}'' (Some (JObj [(''text'', JStr ''ok'')]))
          (constructor ''2026-11-02'' empty_options)
        = (None, logged x (constructor ''2026-11-02'' empty_options)))"
proof -
  let ?s = "constructor ''2026-11-02'' empty_options"
  have ok: "fst (handleResponse (JObj [(''text'', JStr ''ok'')]) ?s) = None"
    by (simp add: handleResponse_obj js_or_def member_of_def)
  have throws: "fst (handleResponse JNull ?s) \<noteq> None"
    by (simp add: handleResponse_def extract_message_def)
  from ok handleResponse_counts_then_appends
      [of "JObj [(''text'', JStr ''ok'')]" ?s "Some (JObj [(''text'', JStr ''ok'')])" "''{\"text\":\"ok\"}''"]
  have 1: "\<exists>x. snd (handleResponse (JObj [(''text'', JStr ''ok'')]) ?s) = logged x ?s"
    and 3: "\<exists>x. on_message ''{\"text\":\"ok\"}'' (Some (JObj [(''text'', JStr ''ok'')])) ?s
        = (None, logged x ?s)"
    by blast+
  from throws handleResponse_counts_then_appends [of JNull ?s None "''null''"]
  have 2: "snd (handleResponse JNull ?s) = ?s\<lparr>stats := (stats ?s)\<lparr>responses := responses (stats ?s) + 1\<rparr>\<rparr>"
    by blast
  from 1 2 3 show ?thesis
    by (intro conjI)
qed

text \<open>
  C2 as stated fails. For the inbound text \<^verbatim>\<open>null\<close> the first call of \<open>handleResponse\<close> throws
  after the increment and before any append, the handler catches that and calls it again
  with the raw text: one message event, two increments, one entry.
\<close>

theorem on_message_null_counted_twice:
  "responses (stats (constructor ''2026-11-02'' empty_options)) = 0
   \<and> responses (stats (snd (on_message ''null'' (Some JNull) (constructor ''2026-11-02'' empty_options)))) = 2
   \<and> length (trainingData (snd (on_message ''null'' (Some JNull) (constructor ''2026-11-02'' empty_options)))) = 1
   \<and> handleResponse JNull (constructor ''2026-11-02'' empty_options)
       = (Some TypeError,
          (constructor ''2026-11-02'' empty_options)
            \<lparr>stats := (stats (constructor ''2026-11-02'' empty_options))\<lparr>responses := 1\<rparr>\<rparr>)
   \<and> trainingData (snd (handleResponse JNull (constructor ''2026-11-02'' empty_options))) = []"
  by (simp add: on_message_def handleResponse_def extract_message_def constructor_def
      js_or_def member_of_def)

section \<open>What the events of a sleep leave untouched\<close>

text \<open>One inbound message adds to the response counter and appends response entries; nothing else.\<close>

lemma on_message_shape:
  "\<exists>k es. snd (on_message raw d s) =
      s\<lparr>stats := (stats s)\<lparr>responses := responses (stats s) + k\<rparr>,
        trainingData := trainingData s @ es\<rparr>
    \<and> list_all (\<lambda>e. etype e = Response \<and> session e = sessionCount (stats s)) es"
proof (cases d)
  case None
  have "snd (on_message raw None s) =
      s\<lparr>stats := (stats s)\<lparr>responses := responses (stats s) + 1\<rparr>,
        trainingData := trainingData s @
          [\<lparr>etype = Response, content = Some (if raw = [] then placeholder else raw),
            session = sessionCount (stats s)\<rparr>]\<rparr>"
    by (simp add: on_message_def handleResponse_raw)
  with None show ?thesis
    by (intro exI [of _ 1] exI [of _ "[\<lparr>etype = Response, content = Some (if raw = [] then placeholder else raw),
            session = sessionCount (stats s)\<rparr>]"]) simp
next
  case (Some r)
  show ?thesis
  proof (cases "fst (handleResponse r s)")
    case None
    with handleResponse_shape [of r s] obtain x where x: "snd (handleResponse r s) = logged x s"
      by blast
    with None have "handleResponse r s = (None, logged x s)"
      by (metis prod.collapse)
    then have "snd (on_message raw (Some r) s) = logged x s"
      by (simp add: on_message_def)
    with Some show ?thesis
      by (intro exI [of _ 1] exI [of _ "[\<lparr>etype = Response, content = Some x, session = sessionCount (stats s)\<rparr>]"]) simp
  next
    case (Some e)
    with handleResponse_shape [of r s]
    have "handleResponse r s = (Some e, s\<lparr>stats := (stats s)\<lparr>responses := responses (stats s) + 1\<rparr>\<rparr>)"
      by (metis option.distinct(1) prod.collapse)
    then have "snd (on_message raw (Some r) s) =
       s\<lparr>stats := (stats s)\<lparr>responses := responses (stats s) + 2\<rparr>,
        trainingData := trainingData s @
          [\<lparr>etype = Response, content = Some (if raw = [] then placeholder else raw),
            session = sessionCount (stats s)\<rparr>]\<rparr>"
      by (simp add: on_message_def handleResponse_raw)
    with \<open>d = Some r\<close> show ?thesis
      by (intro exI [of _ 2] exI [of _ "[\<lparr>etype = Response, content = Some (if raw = [] then placeholder else raw),
            session = sessionCount (stats s)\<rparr>]"]) simp
  qed
qed

lemma on_message_core: "core (snd (on_message raw d s)) = core s"
proof -
  from on_message_shape [of raw d s] obtain k es where
    eq: "snd (on_message raw d s) =
      s\<lparr>stats := (stats s)\<lparr>responses := responses (stats s) + k\<rparr>,
        trainingData := trainingData s @ es\<rparr>"
    and es: "list_all (\<lambda>e. etype e = Response \<and> session e = sessionCount (stats s)) es"
    by blast
  from es have "filter (\<lambda>e. etype e = Prompt) es = []"
    by (induction es) auto
  with eq show ?thesis
    by (simp add: core_def prompt_entries_def)
qed




section \<open>Steps of the loop\<close>

lemma sendMessage_open:
  "ws s = Some OPEN \<Longrightarrow>
   sendMessage m s =
     (None, s\<lparr>outbox := outbox s @ [(m, sessionCount (stats s))],
              stats := (stats s)\<lparr>messageCount := messageCount (stats s) + 1\<rparr>,
              trainingData := trainingData s @
                [\<lparr>etype = Prompt, content = m, session = sessionCount (stats s)\<rparr>]\<rparr>)"
  by (simp add: sendMessage_def Let_def)

lemma loop_exit:
  "\<not> (isRunning s \<and> js_less n (maxMessages (config s))) \<Longrightarrow> loop p n sleeps conns s = Completed (n, s)"
  by (subst loop.simps) auto







section \<open>Invariants of the loop in every environment\<close>

text \<open>
  A property kept by each single step (an attempt to send, the count of an error, a connect,
  the delivery of an event) holds wherever the loop stops: completed, pending or dead.
\<close>

lemma deliver_all_preserves:
  assumes ev: "\<And>s e. P s \<Longrightarrow> P (handled_bot (deliver e s))" and "P s"
  shows "P (handled_bot (deliver_all evs s))"
  using \<open>P s\<close>
proof (induction evs arbitrary: s)
  case Nil
  then show ?case by simp
next
  case (Cons e evs)
  from ev [OF Cons.prems, of e] Cons.IH show ?case
    by (cases "deliver e s") auto
qed

lemma loop_preserves:
  assumes send: "\<And>s m. P s \<Longrightarrow> P (snd (sendMessage m (s\<lparr>currentPromptIndex := currentPromptIndex s + 1\<rparr>)))"
    and err: "\<And>s. P s \<Longrightarrow> P (s\<lparr>stats := (stats s)\<lparr>errors := errors (stats s) + 1\<rparr>\<rparr>)"
    and conn: "\<And>s c. P s \<Longrightarrow> P (connected_bot (connectToNode c s))"
    and ev: "\<And>s e. P s \<Longrightarrow> P (handled_bot (deliver e s))"
    and "P s"
  shows "P (snd (run_state (loop p n sleeps conns s)))"
  using \<open>P s\<close>
proof (induction p n sleeps conns s rule: loop.induct)
  case (1 p n sleeps conns s)
  let ?s1 = "snd (next_prompt p s)"
  let ?r = "sendMessage (fst (next_prompt p s)) ?s1"
  have P2: "P (snd ?r)"
    using send [OF "1.prems"] by (simp add: next_prompt_def)
  show ?case
  proof (cases "isRunning s \<and> js_less n (maxMessages (config s))")
    case False
    then show ?thesis
      using "1.prems" by (simp add: loop_exit)
  next
    case go: True
    show ?thesis
    proof (cases "isPaused s")
      case True
      show ?thesis
      proof (cases sleeps)
        case Nil
        with go True "1.prems" show ?thesis
          by (subst loop.simps) simp
      next
        case (Cons evs sleeps')
        have Pd: "P (handled_bot (deliver_all evs s))"
          by (rule deliver_all_preserves [of P, OF ev "1.prems"])
        show ?thesis
        proof (cases "deliver_all evs s")
          case (Handled s')
          with Pd have "P s'" by simp
          from "1.IH"(1) [OF go True Cons Handled this] go True Cons Handled show ?thesis
            by (subst loop.simps) simp
        next
          case (Uncaught s')
          with Pd go True Cons show ?thesis
            by (subst loop.simps) simp
        qed
      qed
    next
      case False
      obtain e s2 where r: "?r = (e, s2)"
        by (cases ?r)
      with P2 have Ps2: "P s2"
        by simp
      show ?thesis
      proof (cases e)
        case None
        show ?thesis
        proof (cases sleeps)
          case Nil
          with go False r None Ps2 show ?thesis
            by (subst loop.simps) simp
        next
          case (Cons evs sleeps')
          have Pd: "P (handled_bot (deliver_all evs s2))"
            by (rule deliver_all_preserves [of P, OF ev Ps2])
          show ?thesis
          proof (cases "deliver_all evs s2")
            case (Handled s')
            with Pd have "P s'" by simp
            from "1.IH"(2) [OF go False r [symmetric] None Cons Handled this]
              go False r None Cons Handled
            show ?thesis
              by (subst loop.simps) simp
          next
            case (Uncaught s')
            with Pd go False r None Cons show ?thesis
              by (subst loop.simps) simp
          qed
        qed
      next
        case (Some x)
        let ?s3 = "s2\<lparr>stats := (stats s2)\<lparr>errors := errors (stats s2) + 1\<rparr>\<rparr>"
        have Ps3: "P ?s3"
          by (rule err [OF Ps2])
        show ?thesis
        proof (cases conns)
          case Nil
          with go False r Some Ps3 show ?thesis
            by (subst loop.simps) simp
        next
          case (Cons c conns')
          have Pc: "P (connected_bot (connectToNode c ?s3))"
            by (rule conn [OF Ps3])
          show ?thesis
          proof (cases "connectToNode c ?s3")
            case (Resolved s4)
            with Pc have "P s4" by simp
            from "1.IH"(3) [OF go False r [symmetric] Some Cons Resolved this]
              go False r Some Cons Resolved
            show ?thesis
              by (subst loop.simps) simp
          next
            case (Rejected e' s4)
            with Pc go False r Some Cons show ?thesis
              by (subst loop.simps) simp
          next
            case (Thrown s4)
            with Pc go False r Some Cons show ?thesis
              by (subst loop.simps) simp
          qed
        qed
      qed
    qed
  qed
qed

lemma trainingLoop_preserves:
  assumes send: "\<And>s m. P s \<Longrightarrow> P (snd (sendMessage m (s\<lparr>currentPromptIndex := currentPromptIndex s + 1\<rparr>)))"
    and err: "\<And>s. P s \<Longrightarrow> P (s\<lparr>stats := (stats s)\<lparr>errors := errors (stats s) + 1\<rparr>\<rparr>)"
    and conn: "\<And>s c. P s \<Longrightarrow> P (connected_bot (connectToNode c s))"
    and ev: "\<And>s e. P s \<Longrightarrow> P (handled_bot (deliver e s))"
    and stop: "\<And>s. P s \<Longrightarrow> P (handled_bot (stopTraining s))"
    and "P s"
  shows "P (run_state (trainingLoop sleeps conns s))"
proof -
  let ?r = "loop (getTrainingPrompts s) 0 sleeps conns s"
  have P: "P (snd (run_state ?r))"
    by (rule loop_preserves [of P, OF send err conn ev \<open>P s\<close>])
  show ?thesis
  proof (cases ?r)
    case (Completed x)
    obtain n s' where x: "x = (n, s')" by (cases x)
    with Completed P have "P s'" by simp
    from stop [OF this] Completed x show ?thesis
      by (cases "stopTraining s'") (simp_all add: trainingLoop_def)
  next
    case (Pending x)
    with P show ?thesis
      by (cases x) (simp add: trainingLoop_def)
  next
    case (Died x)
    with P show ?thesis
      by (cases x) (simp add: trainingLoop_def)
  qed
qed

section \<open>What no event, connect or stop touches\<close>

lemma on_error_event_frame:
  "config (handled_bot (on_error_event s)) = config s
   \<and> messageCount (stats (handled_bot (on_error_event s))) = messageCount (stats s)
   \<and> sessionCount (stats (handled_bot (on_error_event s))) = sessionCount (stats s)
   \<and> currentPromptIndex (handled_bot (on_error_event s)) = currentPromptIndex s
   \<and> trainingData (handled_bot (on_error_event s)) = trainingData s
   \<and> outbox (handled_bot (on_error_event s)) = outbox s
   \<and> errorListener (handled_bot (on_error_event s)) = errorListener s
   \<and> isRunning (handled_bot (on_error_event s)) = isRunning s
   \<and> ws (handled_bot (on_error_event s)) = ws s
   \<and> errors (stats (handled_bot (on_error_event s))) = errors (stats s) + 1"
  by (simp add: on_error_event_def Let_def)

lemma stopTraining_frame:
  "config (handled_bot (stopTraining s)) = config s
   \<and> messageCount (stats (handled_bot (stopTraining s))) = messageCount (stats s)
   \<and> sessionCount (stats (handled_bot (stopTraining s))) = sessionCount (stats s)
   \<and> currentPromptIndex (handled_bot (stopTraining s)) = currentPromptIndex s
   \<and> trainingData (handled_bot (stopTraining s)) = trainingData s
   \<and> outbox (handled_bot (stopTraining s)) = outbox s
   \<and> errorListener (handled_bot (stopTraining s)) = errorListener s
   \<and> \<not> isRunning (handled_bot (stopTraining s))
   \<and> errors (stats s) \<le> errors (stats (handled_bot (stopTraining s)))"
  by (simp add: stopTraining_def on_error_event_def Let_def split: option.splits ready_state.splits)

lemma connectToNode_frame:
  "config (connected_bot (connectToNode c s)) = config s
   \<and> messageCount (stats (connected_bot (connectToNode c s))) = messageCount (stats s)
   \<and> sessionCount (stats (connected_bot (connectToNode c s))) = sessionCount (stats s)
   \<and> currentPromptIndex (connected_bot (connectToNode c s)) = currentPromptIndex s
   \<and> trainingData (connected_bot (connectToNode c s)) = trainingData s
   \<and> outbox (connected_bot (connectToNode c s)) = outbox s
   \<and> errorListener (connected_bot (connectToNode c s)) = errorListener s
   \<and> isRunning (connected_bot (connectToNode c s)) = isRunning s
   \<and> isPaused (connected_bot (connectToNode c s)) = isPaused s
   \<and> errors (stats s) \<le> errors (stats (connected_bot (connectToNode c s)))"
  by (cases c) (simp_all add: on_error_event_def Let_def)

lemma deliver_frame:
  "config (handled_bot (deliver e s)) = config s
   \<and> messageCount (stats (handled_bot (deliver e s))) = messageCount (stats s)
   \<and> sessionCount (stats (handled_bot (deliver e s))) = sessionCount (stats s)
   \<and> currentPromptIndex (handled_bot (deliver e s)) = currentPromptIndex s
   \<and> outbox (handled_bot (deliver e s)) = outbox s
   \<and> prompt_entries (handled_bot (deliver e s)) = prompt_entries s
   \<and> errorListener (handled_bot (deliver e s)) = errorListener s
   \<and> errors (stats s) \<le> errors (stats (handled_bot (deliver e s)))"
proof (cases e)
  case (Inbound raw d)
  from on_message_core [of raw d s] Inbound show ?thesis
    by (simp add: core_def)
next
  case SocketClosed
  then show ?thesis by (simp add: prompt_entries_def)
next
  case SocketError
  then show ?thesis
    by (simp add: on_error_event_def Let_def prompt_entries_def)
next
  case TogglePause
  then show ?thesis by (simp add: pauseTraining_def prompt_entries_def)
next
  case Interrupt
  with stopTraining_frame [of s] show ?thesis
    by (simp add: prompt_entries_def)
qed


section \<open>Attempts and successes\<close>




section \<open>Runs that are not interrupted\<close>





section \<open>A session without failures\<close>




section \<open>One send failure followed by a successful reconnect\<close>




section \<open>A reconnect that fails\<close>








section \<open>The configuration during a run\<close>

lemma config_sendMessage: "config (snd (sendMessage m s)) = config s"
  by (simp add: sendMessage_def Let_def)

lemma config_trainingLoop: "config (run_state (trainingLoop sleeps conns s)) = config s"
proof (rule trainingLoop_preserves [of "\<lambda>s'. config s' = config s"])
  fix t :: bot and c
  assume "config t = config s"
  with connectToNode_frame [of c t] show "config (connected_bot (connectToNode c t)) = config s"
    by simp
next
  fix t :: bot and e
  assume "config t = config s"
  with deliver_frame [of e t] show "config (handled_bot (deliver e t)) = config s"
    by simp
next
  fix t :: bot
  assume "config t = config s"
  with stopTraining_frame [of t] show "config (handled_bot (stopTraining t)) = config s"
    by simp
qed (simp_all add: config_sendMessage)

lemma config_startTraining: "config (final_bot (startTraining first sleeps conns s)) = config s"
proof (cases "connectToNode first s")
  case (Resolved s1)
  with connectToNode_frame [of first s] have "config s1 = config s"
    by simp
  with Resolved show ?thesis
    by (simp add: startTraining_def config_trainingLoop)
next
  case (Rejected e s1)
  with connectToNode_frame [of first s] show ?thesis
    by (simp add: startTraining_def)
next
  case (Thrown s1)
  with connectToNode_frame [of first s] show ?thesis
    by (simp add: startTraining_def)
qed

section \<open>The resolved configuration\<close>

text \<open>
  C6, as amended. Resolution does not validate: a key that is absent gets its default (50
  messages, 3000 milliseconds) and a supplied number is kept exactly as it is. So the
  resolved configuration has a ceiling of at least 1 and an interval of at least 0 whenever
  each of the two is absent or supplied within these bounds. Nothing changes the
  configuration afterwards: it is the same when \<open>startTraining\<close> is over, however it ends.
\<close>

theorem resolved_limits:
  "(opt_maxMessages c = None \<longrightarrow> maxMessages (config (constructor today c)) = Num 50)
   \<and> (opt_maxMessages c = Some v \<longrightarrow> maxMessages (config (constructor today c)) = v)
   \<and> (opt_messageInterval c = None \<longrightarrow> messageInterval (config (constructor today c)) = Num 3000)
   \<and> (opt_messageInterval c = Some u \<longrightarrow> messageInterval (config (constructor today c)) = u)
   \<and> ((opt_maxMessages c = None \<or> opt_maxMessages c = Some (Num n) \<and> 1 \<le> n)
        \<and> (opt_messageInterval c = None \<or> opt_messageInterval c = Some (Num m) \<and> 0 \<le> m) \<longrightarrow>
        js_ge (maxMessages (config (constructor today c))) 1
        \<and> js_ge (messageInterval (config (constructor today c))) 0)
   \<and> config (final_bot (startTraining first sleeps conns (constructor today c)))
       = config (constructor today c)"
proof -
  have 1: "opt_maxMessages c = None \<longrightarrow> maxMessages (config (constructor today c)) = Num 50"
    by (simp add: constructor_def resolve_config_def spread_def or_num_def)
  have 2: "opt_maxMessages c = Some v \<longrightarrow> maxMessages (config (constructor today c)) = v"
    by (simp add: constructor_def resolve_config_def spread_def)
  have 3: "opt_messageInterval c = None \<longrightarrow> messageInterval (config (constructor today c)) = Num 3000"
    by (simp add: constructor_def resolve_config_def spread_def or_num_def)
  have 4: "opt_messageInterval c = Some u \<longrightarrow> messageInterval (config (constructor today c)) = u"
    by (simp add: constructor_def resolve_config_def spread_def)
  have 5: "(opt_maxMessages c = None \<or> opt_maxMessages c = Some (Num n) \<and> 1 \<le> n)
        \<and> (opt_messageInterval c = None \<or> opt_messageInterval c = Some (Num m) \<and> 0 \<le> m) \<longrightarrow>
        js_ge (maxMessages (config (constructor today c))) 1
        \<and> js_ge (messageInterval (config (constructor today c))) 0"
    by (auto simp: constructor_def resolve_config_def spread_def or_num_def)
  from 1 2 3 4 5 config_startTraining [of first sleeps conns "constructor today c"]
  show ?thesis by blast
qed

theorem resolved_limits_witness:
  "maxMessages (config (constructor ''2026-11-02''
       (empty_options\<lparr>opt_messageInterval := Some (Num 0), opt_maxMessages := Some (Num 3)\<rparr>))) = Num 3
   \<and> messageInterval (config (constructor ''2026-11-02''
       (empty_options\<lparr>opt_messageInterval := Some (Num 0), opt_maxMessages := Some (Num 3)\<rparr>))) = Num 0
   \<and> js_ge (maxMessages (config (constructor ''2026-11-02''
       (empty_options\<lparr>opt_messageInterval := Some (Num 0), opt_maxMessages := Some (Num 3)\<rparr>)))) 1
   \<and> js_ge (messageInterval (config (constructor ''2026-11-02''
       (empty_options\<lparr>opt_messageInterval := Some (Num 0), opt_maxMessages := Some (Num 3)\<rparr>)))) 0
   \<and> maxMessages (config (constructor ''2026-11-02'' empty_options)) = Num 50
   \<and> messageInterval (config (constructor ''2026-11-02'' empty_options)) = Num 3000
   \<and> js_ge (maxMessages (config (constructor ''2026-11-02'' empty_options))) 1
   \<and> js_ge (messageInterval (config (constructor ''2026-11-02'' empty_options))) 0"
proof -
  let ?c = "empty_options\<lparr>opt_messageInterval := Some (Num 0), opt_maxMessages := Some (Num 3)\<rparr>"
  have h: "opt_maxMessages ?c = Some (Num 3)" "opt_messageInterval ?c = Some (Num 0)"
      "opt_maxMessages ?c = Some (Num 3) \<and> (1::int) \<le> 3"
      "opt_messageInterval ?c = Some (Num 0) \<and> (0::int) \<le> 0"
    by (simp_all add: empty_options_def)
  have g: "opt_maxMessages empty_options = None" "opt_messageInterval empty_options = None"
    by (simp_all add: empty_options_def)
  from h resolved_limits [of ?c "''2026-11-02''" "Num 3" "Num 0" 3 0]
  have 1: "maxMessages (config (constructor ''2026-11-02'' ?c)) = Num 3"
    and 2: "messageInterval (config (constructor ''2026-11-02'' ?c)) = Num 0"
    and 3: "js_ge (maxMessages (config (constructor ''2026-11-02'' ?c))) 1"
    and 4: "js_ge (messageInterval (config (constructor ''2026-11-02'' ?c))) 0"
    by blast+
  from g resolved_limits [of empty_options "''2026-11-02''" "Num 1" "Num 1" 1 1]
  have 5: "maxMessages (config (constructor ''2026-11-02'' empty_options)) = Num 50"
    and 6: "messageInterval (config (constructor ''2026-11-02'' empty_options)) = Num 3000"
    and 7: "js_ge (maxMessages (config (constructor ''2026-11-02'' empty_options))) 1"
    and 8: "js_ge (messageInterval (config (constructor ''2026-11-02'' empty_options))) 0"
    by blast+
  from 1 2 3 4 5 6 7 8 show ?thesis
    by (intro conjI)
qed

text \<open>
  C6 as stated fails: a negative ceiling and a negative interval, as \<^verbatim>\<open>--max -5 --interval -1\<close>
  gives them, survive resolution.
\<close>

theorem negative_limits_survive:
  "\<not> js_ge (maxMessages (config (constructor ''2026-11-02''
          (empty_options\<lparr>opt_messageInterval := Some (Num (- 1000)), opt_maxMessages := Some (Num (- 5))\<rparr>)))) 1
   \<and> \<not> js_ge (messageInterval (config (constructor ''2026-11-02''
          (empty_options\<lparr>opt_messageInterval := Some (Num (- 1000)), opt_maxMessages := Some (Num (- 5))\<rparr>)))) 0"
  by (simp add: constructor_def resolve_config_def spread_def empty_options_def)

section \<open>The session number\<close>

text \<open>
  An attempt to send and the delivery of an event keep the session number, and every entry
  they append carries it.
\<close>

lemma session_sendMessage:
  assumes "sessionCount (stats s) = k" "trainingData s = td @ es" "list_all (\<lambda>e. session e = k) es"
  shows "sessionCount (stats (snd (sendMessage m s))) = k
       \<and> (\<exists>es'. trainingData (snd (sendMessage m s)) = td @ es' \<and> list_all (\<lambda>e. session e = k) es')"
proof (cases "ws s = Some OPEN")
  case True
  have "trainingData (snd (sendMessage m s)) = td @ (es @ [\<lparr>etype = Prompt, content = m, session = k\<rparr>])"
    using True assms by (simp add: sendMessage_open)
  moreover have "list_all (\<lambda>e. session e = k) (es @ [\<lparr>etype = Prompt, content = m, session = k\<rparr>])"
    using assms by simp
  moreover have "sessionCount (stats (snd (sendMessage m s))) = k"
    using True assms by (simp add: sendMessage_open)
  ultimately show ?thesis by blast
next
  case False
  with assms show ?thesis
    by (auto simp: sendMessage_def)
qed

lemma session_deliver:
  assumes "sessionCount (stats s) = k" "trainingData s = td @ es" "list_all (\<lambda>e. session e = k) es"
  shows "sessionCount (stats (handled_bot (deliver ev s))) = k
       \<and> (\<exists>es'. trainingData (handled_bot (deliver ev s)) = td @ es' \<and> list_all (\<lambda>e. session e = k) es')"
proof (cases ev)
  case (Inbound raw d)
  from on_message_shape [of raw d s] obtain j es1 where
    eq: "snd (on_message raw d s) =
      s\<lparr>stats := (stats s)\<lparr>responses := responses (stats s) + j\<rparr>,
        trainingData := trainingData s @ es1\<rparr>"
    and es1: "list_all (\<lambda>e. etype e = Response \<and> session e = sessionCount (stats s)) es1"
    by blast
  from es1 assms(1) have "list_all (\<lambda>e. session e = k) es1"
    by (induction es1) auto
  with assms have "list_all (\<lambda>e. session e = k) (es @ es1)"
    by simp
  moreover have "trainingData (handled_bot (deliver ev s)) = td @ (es @ es1)"
    using Inbound eq assms by simp
  moreover have "sessionCount (stats (handled_bot (deliver ev s))) = k"
    using Inbound eq assms by simp
  ultimately show ?thesis by blast
next
  case SocketClosed
  with assms show ?thesis by auto
next
  case SocketError
  with assms on_error_event_frame [of "s\<lparr>ws := map_option (\<lambda>_. CLOSING) (ws s)\<rparr>"] show ?thesis
    by auto
next
  case TogglePause
  with assms show ?thesis by (auto simp: pauseTraining_def)
next
  case Interrupt
  with assms stopTraining_frame [of s] show ?thesis by auto
qed

text \<open>
  C5, as amended. \<open>startTraining\<close> increments the session number exactly once, after its
  initial connect has succeeded, and nothing in the training loop changes it again, a
  successful reconnect included: whatever happens during the run, and however and wherever
  it ends, every entry the run has recorded carries that one session number. When the
  initial connect fails the session number is not incremented and nothing is recorded.
\<close>

theorem session_number_set_at_start:
  "(first = ConnOpen \<longrightarrow>
      sessionCount (stats (final_bot (startTraining first sleeps conns s))) = sessionCount (stats s) + 1
      \<and> (\<exists>es. trainingData (final_bot (startTraining first sleeps conns s)) = trainingData s @ es
             \<and> list_all (\<lambda>e. session e = sessionCount (stats s) + 1) es))
   \<and> (first \<noteq> ConnOpen \<longrightarrow>
      sessionCount (stats (final_bot (startTraining first sleeps conns s))) = sessionCount (stats s)
      \<and> trainingData (final_bot (startTraining first sleeps conns s)) = trainingData s)"
proof (intro conjI impI)
  assume f: "first = ConnOpen"
  let ?k = "sessionCount (stats s) + 1"
  let ?P = "\<lambda>s'::bot. sessionCount (stats s') = ?k
       \<and> (\<exists>es. trainingData s' = trainingData s @ es \<and> list_all (\<lambda>e. session e = ?k) es)"
  let ?s0 = "s\<lparr>ws := Some OPEN, isRunning := True,
               stats := (stats s)\<lparr>sessionCount := sessionCount (stats s) + 1\<rparr>\<rparr>"
  from f have r: "final_bot (startTraining first sleeps conns s) = run_state (trainingLoop sleeps conns ?s0)"
    by (simp add: startTraining_def)
  have P0: "?P ?s0"
    by simp
  have "?P (run_state (trainingLoop sleeps conns ?s0))"
  proof (rule trainingLoop_preserves [of ?P, OF _ _ _ _ _ P0])
    fix s' :: bot and m assume "?P s'"
    then have "?P (s'\<lparr>currentPromptIndex := currentPromptIndex s' + 1\<rparr>)"
      by simp
    then show "?P (snd (sendMessage m (s'\<lparr>currentPromptIndex := currentPromptIndex s' + 1\<rparr>)))"
      using session_sendMessage
        [of "s'\<lparr>currentPromptIndex := currentPromptIndex s' + 1\<rparr>" ?k "trainingData s" _ m]
      by blast
  next
    fix s' :: bot assume "?P s'"
    then show "?P (s'\<lparr>stats := (stats s')\<lparr>errors := errors (stats s') + 1\<rparr>\<rparr>)"
      by simp
  next
    fix s' :: bot and c assume "?P s'"
    with connectToNode_frame [of c s'] show "?P (connected_bot (connectToNode c s'))"
      by simp
  next
    fix s' :: bot and e assume "?P s'"
    then show "?P (handled_bot (deliver e s'))"
      using session_deliver [of s' ?k "trainingData s" _ e] by blast
  next
    fix s' :: bot assume "?P s'"
    with stopTraining_frame [of s'] show "?P (handled_bot (stopTraining s'))"
      by simp
  qed
  with r show "sessionCount (stats (final_bot (startTraining first sleeps conns s))) = sessionCount (stats s) + 1"
    and "\<exists>es. trainingData (final_bot (startTraining first sleeps conns s)) = trainingData s @ es
             \<and> list_all (\<lambda>e. session e = sessionCount (stats s) + 1) es"
    by simp_all
next
  assume f: "first \<noteq> ConnOpen"
  then show "sessionCount (stats (final_bot (startTraining first sleeps conns s))) = sessionCount (stats s)"
    and "trainingData (final_bot (startTraining first sleeps conns s)) = trainingData s"
    by (cases first; simp add: startTraining_def on_error_event_def Let_def)+
qed

theorem session_number_set_at_start_witness:
  "sessionCount (stats (final_bot (startTraining ConnOpen [[SocketClosed], []] [ConnOpen]
       (constructor ''2026-11-02'' (empty_options\<lparr>opt_maxMessages := Some (Num 2)\<rparr>))))) = 1
   \<and> list_all (\<lambda>e. session e = 1)
       (trainingData (final_bot (startTraining ConnOpen [[SocketClosed], []] [ConnOpen]
         (constructor ''2026-11-02'' (empty_options\<lparr>opt_maxMessages := Some (Num 2)\<rparr>)))))
   \<and> length (trainingData (final_bot (startTraining ConnOpen [[SocketClosed], []] [ConnOpen]
         (constructor ''2026-11-02'' (empty_options\<lparr>opt_maxMessages := Some (Num 2)\<rparr>))))) = 2
   \<and> errors (stats (final_bot (startTraining ConnOpen [[SocketClosed], []] [ConnOpen]
       (constructor ''2026-11-02'' (empty_options\<lparr>opt_maxMessages := Some (Num 2)\<rparr>))))) = 1
   \<and> sessionCount (stats (final_bot (startTraining ConnTimeout [[SocketClosed], []] [ConnOpen]
       (constructor ''2026-11-02'' (empty_options\<lparr>opt_maxMessages := Some (Num 2)\<rparr>))))) = 0"
proof -
  let ?b = "constructor ''2026-11-02'' (empty_options\<lparr>opt_maxMessages := Some (Num 2)\<rparr>)"
  let ?r = "startTraining ConnOpen [[SocketClosed], []] [ConnOpen] ?b"
  have b: "sessionCount (stats ?b) = 0" "trainingData ?b = []"
    by (simp_all add: constructor_def)
  have t: "ConnTimeout \<noteq> ConnOpen"
    by simp
  from session_number_set_at_start [of ConnOpen "[[SocketClosed], []]" "[ConnOpen]" ?b]
  have 1: "sessionCount (stats (final_bot ?r)) = 1"
    and 2: "list_all (\<lambda>e. session e = 1) (trainingData (final_bot ?r))"
    unfolding b by auto
  from t session_number_set_at_start [of ConnTimeout "[[SocketClosed], []]" "[ConnOpen]" ?b]
  have 3: "sessionCount (stats (final_bot (startTraining ConnTimeout [[SocketClosed], []] [ConnOpen] ?b))) = 0"
    unfolding b by blast
  have 4: "length (trainingData (final_bot ?r)) = 2" "errors (stats (final_bot ?r)) = 1"
    by (simp_all add: run_defs)
  from 1 2 3 4 show ?thesis
    by (intro conjI)
qed

text \<open>
  C5 as stated fails. In the run below the socket closes after the first send and the
  reconnect succeeds: two successful connects, yet the session number ends at 1, and the
  entry recorded after the reconnect carries the same number as the one recorded before it.
\<close>

theorem reconnect_keeps_session_number:
  "startTraining ConnOpen [[SocketClosed], []] [ConnOpen]
     (constructor ''2026-11-02'' (empty_options\<lparr>opt_maxMessages := Some (Num 2)\<rparr>)) =
   Inr (Completed
       \<lparr>config =
          \<lparr>nodeUrl = ''ws://localhost:8080/chat'',
             trainingMode = ''general'', messageInterval = Num 3000,
             maxMessages = Num 2, customPrompts = [],
             logFile = ''gaia-training-2026-11-02.json''\<rparr>,
          ws = Some CLOSED, isRunning = False, isPaused = False,
          stats =
            \<lparr>messageCount = 2, sessionCount = 1, responses = 0, errors = 1\<rparr>,
          trainingData =
            [\<lparr>etype = Prompt, content = Some ''Hello, how are you today?'',
                session = 1\<rparr>,
             \<lparr>etype = Prompt, content = Some ''Tell me about the weather'',
                session = 1\<rparr>],
          currentPromptIndex = 3,
          outbox =
            [(Some ''Hello, how are you today?'', 1),
             (Some ''Tell me about the weather'', 1)],
          errorListener = False\<rparr>)"
  by (simp add: run_defs)

end
